theory Spec2Isabelle
  imports Main "HOL-Library.AList" "HOL-Library.Sublist"
begin

section \<open>TBDBpy: the request builder, the credential collector and the path validator\<close>

text \<open>
  The module \<^verbatim>\<open>tbdb/__init__.py\<close> builds a JSON request from a caller's dictionary,
  posts it and returns the decoded response. The embedding below keeps the module's
  function and variable names (a leading underscore is dropped, since an Isabelle name
  cannot start with one).
\<close>

subsection \<open>Python values\<close>

text \<open>
  The values that travel through the module are what \<^verbatim>\<open>json.loads\<close> produces and
  what \<^verbatim>\<open>requests.post(json=...)\<close> accepts: \<^verbatim>\<open>None\<close>, booleans, numbers,
  strings, lists and dictionaries with string keys. A dictionary is an association list
  in insertion order, read with \<^const>\<open>map_of\<close>. A number carries an integer: no
  function of the module looks at the value of a number. A string is a list of
  characters with code points below 256.
\<close>

datatype pyval =
    PNone
  | PBool bool
  | PInt int
  | PStr string
  | PList "pyval list"
  | PDict "(string \<times> pyval) list"

type_synonym dict = "(string \<times> pyval) list"

text \<open>
  Exceptions are values. \<open>KeyError k\<close> is a failed dictionary lookup of \<open>k\<close>,
  \<open>TypeError\<close> a membership test or a subscript on a value that does not support it,
  \<open>EOFError\<close> is \<^verbatim>\<open>input()\<close> at the end of the input, \<open>TransportFailure\<close>
  is an exception of \<^verbatim>\<open>requests.post\<close> and \<open>DecodeFailure\<close> one of
  \<^verbatim>\<open>json.loads\<close>.
\<close>

datatype error =
    KeyError string
  | TypeError
  | EOFError
  | TransportFailure
  | DecodeFailure

text \<open>
  The remote side: for a URL and a JSON body, what \<^verbatim>\<open>requests.post\<close> followed by
  \<^verbatim>\<open>json.loads(resp.text)\<close> yields.
\<close>

type_synonym server = "string \<Rightarrow> pyval \<Rightarrow> error + pyval"

subsection \<open>The request builder \<^verbatim>\<open>_makeReq\<close>\<close>

text \<open>
  \<^verbatim>\<open>queryParams[k] if k in queryParams else {}\<close>
\<close>

definition get_or_empty :: "dict \<Rightarrow> string \<Rightarrow> pyval" where
  "get_or_empty queryParams k =
     (case map_of queryParams k of Some v \<Rightarrow> v | None \<Rightarrow> PDict [])"

text \<open>
  The dictionary \<^verbatim>\<open>query\<close> that \<^verbatim>\<open>_makeReq\<close> builds when \<^verbatim>\<open>DB_query\<close> holds.
  The literal is evaluated in order, so the lookup of \<^verbatim>\<open>'corpusName'\<close> comes first
  and raises \<^verbatim>\<open>KeyError\<close> when the key is missing. \<^verbatim>\<open>'nsAuth'\<close> is added at the
  end when the caller has it.
\<close>

definition makeReq_query :: "dict \<Rightarrow> error + dict" where
  "makeReq_query queryParams =
     (case map_of queryParams ''corpusName'' of
        None \<Rightarrow> Inl (KeyError ''corpusName'')
      | Some corpusName \<Rightarrow>
          (let query =
             [(''corpusName'', corpusName),
              (''corpora'', get_or_empty queryParams ''corpora''),
              (''lang'', get_or_empty queryParams ''lang''),
              (''media'', get_or_empty queryParams ''media''),
              (''age'', get_or_empty queryParams ''age''),
              (''gender'', get_or_empty queryParams ''gender''),
              (''designType'', get_or_empty queryParams ''designType''),
              (''activityType'', get_or_empty queryParams ''activityType''),
              (''groupType'', get_or_empty queryParams ''groupType''),
              (''cqlArr'', get_or_empty queryParams ''cqlArr''),
              (''nGram'', get_or_empty queryParams ''nGram''),
              (''respType'', PStr ''JSON'')]
           in (case map_of queryParams ''nsAuth'' of
                 Some nsAuth \<Rightarrow> Inr (AList.update ''nsAuth'' nsAuth query)
               | None \<Rightarrow> Inr query)))"

text \<open>
  \<^verbatim>\<open>_makeReq(queryParams, route, DB_query)\<close>. The result is the list of requests
  posted, each a URL with its JSON body, and the value returned or the exception raised.
\<close>

definition makeReq ::
  "server \<Rightarrow> dict \<Rightarrow> string \<Rightarrow> bool \<Rightarrow> (string \<times> pyval) list \<times> (error + pyval)" where
  "makeReq srv queryParams route DB_query =
     (let URL = ''https://sla2.talkbank.org:1515/'' @ route in
      if DB_query then
        (case makeReq_query queryParams of
           Inl e \<Rightarrow> ([], Inl e)
         | Inr query \<Rightarrow>
             ([(URL, PDict [(''queryVals'', PDict query)])],
              srv URL (PDict [(''queryVals'', PDict query)])))
      else ([(URL, PDict [])], srv URL (PDict [])))"

subsection \<open>The credential collector \<^verbatim>\<open>_authenticate\<close>\<close>

text \<open>
  \<^verbatim>\<open>str.lower\<close> on code points below 256: the letters A to Z and the accented capitals
  from 192 to 222 (215, the multiplication sign, apart) move up by 32.
\<close>

definition lower_char :: "char \<Rightarrow> char" where
  "lower_char c =
     (let n = (of_char c :: nat) in
      if (65 \<le> n \<and> n \<le> 90) \<or> (192 \<le> n \<and> n \<le> 214) \<or> (216 \<le> n \<and> n \<le> 222)
      then char_of (n + 32) else c)"

definition lower :: "string \<Rightarrow> string" where
  "lower s = map lower_char s"

text \<open>
  The loop of \<^verbatim>\<open>_authenticate\<close>. The terminal is the list of lines still to be
  read; \<^verbatim>\<open>input\<close> and \<^verbatim>\<open>getpass.getpass\<close> take its head and raise
  \<^verbatim>\<open>EOFError\<close> when it is empty. One round reads a path, a user identifier, a
  password and the answer to \<^verbatim>\<open>Authenticate another? (Y/N)\<close>. The loop head tests
  \<^verbatim>\<open>another == 'y'\<close>, the return inside the body tests
  \<^verbatim>\<open>another.lower() != 'y'\<close>; leaving the loop through its head reaches the end
  of the function, which returns \<^verbatim>\<open>None\<close>. The result is the lines left and the
  value returned or the exception raised.
\<close>

fun authenticate_loop ::
  "pyval list \<Rightarrow> string \<Rightarrow> string list \<Rightarrow> string list \<times> (error + pyval)" where
  "authenticate_loop authReqs another inputs =
     (if another = ''y'' then
        (case inputs of
           path # user_id # password # answer # rest \<Rightarrow>
             (if lower answer \<noteq> ''y''
              then (rest, Inr (PList (authReqs @
                     [PDict [(''path'', PStr path), (''userID'', PStr user_id),
                             (''pswd'', PStr password)]])))
              else authenticate_loop
                     (authReqs @
                       [PDict [(''path'', PStr path), (''userID'', PStr user_id),
                               (''pswd'', PStr password)]])
                     answer rest)
         | _ \<Rightarrow> ([], Inl EOFError))
      else (inputs, Inr PNone))"

definition authenticate :: "string list \<Rightarrow> string list \<times> (error + pyval)" where
  "authenticate inputs = authenticate_loop [] ''y'' inputs"

subsection \<open>The public query functions\<close>

text \<open>
  Each public function takes the caller's dictionary and the flag \<^verbatim>\<open>auth\<close>.
  With the flag set it assigns \<^verbatim>\<open>queryParams['nsAuth'] = _authenticate()\<close>, an
  assignment into the caller's own dictionary object, and then posts the request. What a
  call leaves behind is the caller's dictionary as it is after the call, the terminal
  lines not read, the requests posted, and the value returned or the exception raised.
\<close>

record call_result =
  params_after :: dict
  inputs_after :: "string list"
  posted :: "(string \<times> pyval) list"
  returned :: "error + pyval"

definition getTranscripts :: "server \<Rightarrow> string list \<Rightarrow> dict \<Rightarrow> bool \<Rightarrow> call_result" where
  "getTranscripts srv inputs queryParams auth =
     (if auth then
        (case authenticate inputs of
           (inputs', Inl e) \<Rightarrow>
             \<lparr>params_after = queryParams, inputs_after = inputs', posted = [], returned = Inl e\<rparr>
         | (inputs', Inr nsAuth) \<Rightarrow>
             (case makeReq srv (AList.update ''nsAuth'' nsAuth queryParams) ''getTranscriptSummary'' True of
                (reqs, r) \<Rightarrow>
                  \<lparr>params_after = AList.update ''nsAuth'' nsAuth queryParams,
                   inputs_after = inputs', posted = reqs, returned = r\<rparr>))
      else
        (case makeReq srv queryParams ''getTranscriptSummary'' True of
           (reqs, r) \<Rightarrow>
             \<lparr>params_after = queryParams, inputs_after = inputs, posted = reqs, returned = r\<rparr>))"

definition getParticipants :: "server \<Rightarrow> string list \<Rightarrow> dict \<Rightarrow> bool \<Rightarrow> call_result" where
  "getParticipants srv inputs queryParams auth =
     (if auth then
        (case authenticate inputs of
           (inputs', Inl e) \<Rightarrow>
             \<lparr>params_after = queryParams, inputs_after = inputs', posted = [], returned = Inl e\<rparr>
         | (inputs', Inr nsAuth) \<Rightarrow>
             (case makeReq srv (AList.update ''nsAuth'' nsAuth queryParams) ''getParticipantSummary'' True of
                (reqs, r) \<Rightarrow>
                  \<lparr>params_after = AList.update ''nsAuth'' nsAuth queryParams,
                   inputs_after = inputs', posted = reqs, returned = r\<rparr>))
      else
        (case makeReq srv queryParams ''getParticipantSummary'' True of
           (reqs, r) \<Rightarrow>
             \<lparr>params_after = queryParams, inputs_after = inputs, posted = reqs, returned = r\<rparr>))"

definition getUtterances :: "server \<Rightarrow> string list \<Rightarrow> dict \<Rightarrow> bool \<Rightarrow> call_result" where
  "getUtterances srv inputs queryParams auth =
     (if auth then
        (case authenticate inputs of
           (inputs', Inl e) \<Rightarrow>
             \<lparr>params_after = queryParams, inputs_after = inputs', posted = [], returned = Inl e\<rparr>
         | (inputs', Inr nsAuth) \<Rightarrow>
             (case makeReq srv (AList.update ''nsAuth'' nsAuth queryParams) ''getUtteranceSummary'' True of
                (reqs, r) \<Rightarrow>
                  \<lparr>params_after = AList.update ''nsAuth'' nsAuth queryParams,
                   inputs_after = inputs', posted = reqs, returned = r\<rparr>))
      else
        (case makeReq srv queryParams ''getUtteranceSummary'' True of
           (reqs, r) \<Rightarrow>
             \<lparr>params_after = queryParams, inputs_after = inputs, posted = reqs, returned = r\<rparr>))"

definition getTokens :: "server \<Rightarrow> string list \<Rightarrow> dict \<Rightarrow> bool \<Rightarrow> call_result" where
  "getTokens srv inputs queryParams auth =
     (if auth then
        (case authenticate inputs of
           (inputs', Inl e) \<Rightarrow>
             \<lparr>params_after = queryParams, inputs_after = inputs', posted = [], returned = Inl e\<rparr>
         | (inputs', Inr nsAuth) \<Rightarrow>
             (case makeReq srv (AList.update ''nsAuth'' nsAuth queryParams) ''getTokenSummary'' True of
                (reqs, r) \<Rightarrow>
                  \<lparr>params_after = AList.update ''nsAuth'' nsAuth queryParams,
                   inputs_after = inputs', posted = reqs, returned = r\<rparr>))
      else
        (case makeReq srv queryParams ''getTokenSummary'' True of
           (reqs, r) \<Rightarrow>
             \<lparr>params_after = queryParams, inputs_after = inputs, posted = reqs, returned = r\<rparr>))"

definition getTokenTypes :: "server \<Rightarrow> string list \<Rightarrow> dict \<Rightarrow> bool \<Rightarrow> call_result" where
  "getTokenTypes srv inputs queryParams auth =
     (if auth then
        (case authenticate inputs of
           (inputs', Inl e) \<Rightarrow>
             \<lparr>params_after = queryParams, inputs_after = inputs', posted = [], returned = Inl e\<rparr>
         | (inputs', Inr nsAuth) \<Rightarrow>
             (case makeReq srv (AList.update ''nsAuth'' nsAuth queryParams) ''getTokenTypes'' True of
                (reqs, r) \<Rightarrow>
                  \<lparr>params_after = AList.update ''nsAuth'' nsAuth queryParams,
                   inputs_after = inputs', posted = reqs, returned = r\<rparr>))
      else
        (case makeReq srv queryParams ''getTokenTypes'' True of
           (reqs, r) \<Rightarrow>
             \<lparr>params_after = queryParams, inputs_after = inputs, posted = reqs, returned = r\<rparr>))"

definition getCQL :: "server \<Rightarrow> string list \<Rightarrow> dict \<Rightarrow> bool \<Rightarrow> call_result" where
  "getCQL srv inputs queryParams auth =
     (if auth then
        (case authenticate inputs of
           (inputs', Inl e) \<Rightarrow>
             \<lparr>params_after = queryParams, inputs_after = inputs', posted = [], returned = Inl e\<rparr>
         | (inputs', Inr nsAuth) \<Rightarrow>
             (case makeReq srv (AList.update ''nsAuth'' nsAuth queryParams) ''cql'' True of
                (reqs, r) \<Rightarrow>
                  \<lparr>params_after = AList.update ''nsAuth'' nsAuth queryParams,
                   inputs_after = inputs', posted = reqs, returned = r\<rparr>))
      else
        (case makeReq srv queryParams ''cql'' True of
           (reqs, r) \<Rightarrow>
             \<lparr>params_after = queryParams, inputs_after = inputs, posted = reqs, returned = r\<rparr>))"

definition getNgrams :: "server \<Rightarrow> string list \<Rightarrow> dict \<Rightarrow> bool \<Rightarrow> call_result" where
  "getNgrams srv inputs queryParams auth =
     (if auth then
        (case authenticate inputs of
           (inputs', Inl e) \<Rightarrow>
             \<lparr>params_after = queryParams, inputs_after = inputs', posted = [], returned = Inl e\<rparr>
         | (inputs', Inr nsAuth) \<Rightarrow>
             (case makeReq srv (AList.update ''nsAuth'' nsAuth queryParams) ''getNgrams'' True of
                (reqs, r) \<Rightarrow>
                  \<lparr>params_after = AList.update ''nsAuth'' nsAuth queryParams,
                   inputs_after = inputs', posted = reqs, returned = r\<rparr>))
      else
        (case makeReq srv queryParams ''getNgrams'' True of
           (reqs, r) \<Rightarrow>
             \<lparr>params_after = queryParams, inputs_after = inputs, posted = reqs, returned = r\<rparr>))"

subsection \<open>The path tree and the path validator\<close>

definition getPathTrees :: "server \<Rightarrow> (string \<times> pyval) list \<times> (error + pyval)" where
  "getPathTrees srv = makeReq srv [] ''getPathTrees'' False"

text \<open>
  \<^verbatim>\<open>seg in pathTree\<close> for a string \<open>seg\<close>: key membership in a dictionary, element
  membership in a list, substring test in a string, and \<^verbatim>\<open>TypeError\<close> on
  \<^verbatim>\<open>None\<close>, a boolean or a number.
\<close>

fun py_in :: "string \<Rightarrow> pyval \<Rightarrow> error + bool" where
  "py_in seg (PDict kvs) = Inr (seg \<in> set (map fst kvs))"
| "py_in seg (PList xs) = Inr (PStr seg \<in> set xs)"
| "py_in seg (PStr t) = Inr (sublist seg t)"
| "py_in seg PNone = Inl TypeError"
| "py_in seg (PBool b) = Inl TypeError"
| "py_in seg (PInt n) = Inl TypeError"

text \<open>
  \<^verbatim>\<open>pathTree[seg]\<close> for a string \<open>seg\<close>: the value under the key in a dictionary
  (\<^verbatim>\<open>KeyError\<close> without the key), and \<^verbatim>\<open>TypeError\<close> on every other value (a
  list and a string take integer subscripts only, the rest take none).
\<close>

fun py_getitem :: "pyval \<Rightarrow> string \<Rightarrow> error + pyval" where
  "py_getitem (PDict kvs) seg =
     (case map_of kvs seg of Some v \<Rightarrow> Inr v | None \<Rightarrow> Inl (KeyError seg))"
| "py_getitem (PList xs) seg = Inl TypeError"
| "py_getitem (PStr t) seg = Inl TypeError"
| "py_getitem PNone seg = Inl TypeError"
| "py_getitem (PBool b) seg = Inl TypeError"
| "py_getitem (PInt n) seg = Inl TypeError"

text \<open>
  The inner function \<^verbatim>\<open>checkPath(targetPath, pathTree)\<close> of \<^verbatim>\<open>validPath\<close>. The
  result is the lines printed and the value returned or the exception raised. On the
  branch where the segment is in the tree the recursive call is a statement of its own:
  its value is dropped and the function reaches its end, which returns \<^verbatim>\<open>None\<close>;
  an exception of the recursive call passes through.
\<close>

fun checkPath :: "string list \<Rightarrow> pyval \<Rightarrow> string list \<times> (error + pyval)" where
  "checkPath [] pathTree = ([], Inr (PBool True))"
| "checkPath (seg # rest) pathTree =
     (case py_in seg pathTree of
        Inl e \<Rightarrow> ([], Inl e)
      | Inr True \<Rightarrow>
          (case py_getitem pathTree seg of
             Inl e \<Rightarrow> ([], Inl e)
           | Inr sub \<Rightarrow>
               (case checkPath rest sub of
                  (out, Inl e) \<Rightarrow> (out, Inl e)
                | (out, Inr v) \<Rightarrow> (out, Inr PNone)))
      | Inr False \<Rightarrow> ([''Invalid path at: '' @ seg], Inr (PBool False)))"

text \<open>
  \<^verbatim>\<open>validPath(targetPath)\<close>. \<^verbatim>\<open>getPathTrees()\<close> is called twice: once when the
  \<^verbatim>\<open>def\<close> of the inner function evaluates its default argument, and once for the
  call \<^verbatim>\<open>checkPath(['respMsg'] + targetPath, getPathTrees())\<close>, whose value is
  returned. The result is the requests posted, the lines printed and the value returned or
  the exception raised.
\<close>

definition validPath ::
  "server \<Rightarrow> string list \<Rightarrow> (string \<times> pyval) list \<times> string list \<times> (error + pyval)" where
  "validPath srv targetPath =
     (case getPathTrees srv of
        (reqs1, Inl e) \<Rightarrow> (reqs1, [], Inl e)
      | (reqs1, Inr default_tree) \<Rightarrow>
          (case getPathTrees srv of
             (reqs2, Inl e) \<Rightarrow> (reqs1 @ reqs2, [], Inl e)
           | (reqs2, Inr pathTree) \<Rightarrow>
               (case checkPath (''respMsg'' # targetPath) pathTree of
                  (out, r) \<Rightarrow> (reqs1 @ reqs2, out, r))))"

subsection \<open>Notions used in the statements\<close>

text \<open>
  The optional keys of a data query, in the order of the dictionary literal of
  \<^verbatim>\<open>_makeReq\<close>.
\<close>

definition optional_keys :: "string list" where
  "optional_keys =
     [''corpora'', ''lang'', ''media'', ''age'', ''gender'', ''designType'',
      ''activityType'', ''groupType'', ''cqlArr'', ''nGram'']"

text \<open>The seven public functions that take a parameter dictionary and \<^verbatim>\<open>auth\<close>.\<close>

definition public_query_functions ::
  "(server \<Rightarrow> string list \<Rightarrow> dict \<Rightarrow> bool \<Rightarrow> call_result) list" where
  "public_query_functions =
     [getTranscripts, getParticipants, getUtterances, getTokens, getTokenTypes, getCQL,
      getNgrams]"

text \<open>
  Every value that the descent along \<open>targetPath\<close> visits in \<open>pathTree\<close> is a
  dictionary: the descent stops at the first segment that is not a key.
\<close>

fun dicts_along :: "string list \<Rightarrow> pyval \<Rightarrow> bool" where
  "dicts_along [] pathTree = True"
| "dicts_along (seg # rest) (PDict kvs) =
     (case map_of kvs seg of None \<Rightarrow> True | Some sub \<Rightarrow> dicts_along rest sub)"
| "dicts_along (seg # rest) pathTree = False"

text \<open>
  A response of \<^verbatim>\<open>getPathTrees\<close> that holds the chain of the docstring's example,
  \<^verbatim>\<open>{'respMsg': {'childes': {'childes': {'Clinical': {}}}}}\<close>.
\<close>

definition example_tree :: pyval where
  "example_tree =
     PDict [(''respMsg'',
       PDict [(''childes'', PDict [(''childes'', PDict [(''Clinical'', PDict [])])])])]"

section \<open>Properties of the request builder\<close>

lemma makeReq_query_Some:
  assumes "map_of queryParams ''corpusName'' = Some c"
  shows "makeReq_query queryParams =
     Inr ([(''corpusName'', c),
           (''corpora'', get_or_empty queryParams ''corpora''),
           (''lang'', get_or_empty queryParams ''lang''),
           (''media'', get_or_empty queryParams ''media''),
           (''age'', get_or_empty queryParams ''age''),
           (''gender'', get_or_empty queryParams ''gender''),
           (''designType'', get_or_empty queryParams ''designType''),
           (''activityType'', get_or_empty queryParams ''activityType''),
           (''groupType'', get_or_empty queryParams ''groupType''),
           (''cqlArr'', get_or_empty queryParams ''cqlArr''),
           (''nGram'', get_or_empty queryParams ''nGram''),
           (''respType'', PStr ''JSON'')] @
          (case map_of queryParams ''nsAuth'' of Some a \<Rightarrow> [(''nsAuth'', a)] | None \<Rightarrow> []))"
  using assms by (simp add: makeReq_query_def split: option.split)

lemma makeReq_query_None:
  "map_of queryParams ''corpusName'' = None \<Longrightarrow>
   makeReq_query queryParams = Inl (KeyError ''corpusName'')"
  by (simp add: makeReq_query_def)

lemma makeReq_query_Inr_corpusName:
  assumes "makeReq_query queryParams = Inr query"
  obtains c where "map_of queryParams ''corpusName'' = Some c"
  using assms by (auto simp: makeReq_query_def split: option.splits)

text \<open>
  Claim C3. When the caller's dictionary has \<^verbatim>\<open>'corpusName'\<close>, the dictionary built
  for a data query holds every optional key: under it the caller's value when the caller
  has the key, and the empty dictionary \<^verbatim>\<open>{}\<close> when not. \<^verbatim>\<open>'respType'\<close> is the
  string \<^verbatim>\<open>'JSON'\<close>, whatever the caller has under that key.
\<close>

theorem makeReq_query_defaults:
  assumes "map_of queryParams ''corpusName'' = Some c"
  shows "\<exists>query. makeReq_query queryParams = Inr query \<and>
           map_of query ''corpusName'' = Some c \<and>
           (\<forall>k \<in> set optional_keys.
              map_of query k =
                Some (case map_of queryParams k of Some v \<Rightarrow> v | None \<Rightarrow> PDict [])) \<and>
           map_of query ''respType'' = Some (PStr ''JSON'')"
  by (simp add: makeReq_query_Some[OF assms] optional_keys_def get_or_empty_def)

theorem makeReq_query_defaults_witness:
  "map_of [(''corpusName'', PStr ''childes''), (''lang'', PList [PStr ''eng'']),
           (''respType'', PStr ''XML'')] ''corpusName'' = Some (PStr ''childes'') \<and>
   (\<exists>query.
      makeReq_query [(''corpusName'', PStr ''childes''), (''lang'', PList [PStr ''eng'']),
                     (''respType'', PStr ''XML'')] = Inr query \<and>
      map_of query ''lang'' = Some (PList [PStr ''eng'']) \<and>
      map_of query ''nGram'' = Some (PDict []) \<and>
      map_of query ''respType'' = Some (PStr ''JSON''))"
proof -
  have h: "map_of [(''corpusName'', PStr ''childes''), (''lang'', PList [PStr ''eng'']),
                   (''respType'', PStr ''XML'')] ''corpusName'' = Some (PStr ''childes'')"
    by simp
  from makeReq_query_defaults[OF h] obtain query where
    q: "makeReq_query [(''corpusName'', PStr ''childes''), (''lang'', PList [PStr ''eng'']),
                       (''respType'', PStr ''XML'')] = Inr query"
    and ks: "\<forall>k \<in> set optional_keys.
              map_of query k =
                Some (case map_of [(''corpusName'', PStr ''childes''),
                                   (''lang'', PList [PStr ''eng'']),
                                   (''respType'', PStr ''XML'')] k of
                        Some v \<Rightarrow> v | None \<Rightarrow> PDict [])"
    and r: "map_of query ''respType'' = Some (PStr ''JSON'')"
    by blast
  from ks have "map_of query ''lang'' = Some (PList [PStr ''eng''])"
    and "map_of query ''nGram'' = Some (PDict [])"
    by (simp_all add: optional_keys_def)
  with h q r show ?thesis by blast
qed

text \<open>
  Claim C4. A data query on a dictionary without \<^verbatim>\<open>'corpusName'\<close> raises
  \<^verbatim>\<open>KeyError('corpusName')\<close> and no request has been posted; with the key, building the
  dictionary does not raise, and exactly one request is posted, whose body holds that
  dictionary under \<^verbatim>\<open>'queryVals'\<close>.
\<close>

theorem makeReq_corpusName:
  "(map_of queryParams ''corpusName'' = None \<longrightarrow>
      makeReq srv queryParams route True = ([], Inl (KeyError ''corpusName''))) \<and>
   (map_of queryParams ''corpusName'' \<noteq> None \<longrightarrow>
      (\<exists>query. makeReq_query queryParams = Inr query \<and>
         makeReq srv queryParams route True =
           ([(''https://sla2.talkbank.org:1515/'' @ route,
              PDict [(''queryVals'', PDict query)])],
            srv (''https://sla2.talkbank.org:1515/'' @ route)
              (PDict [(''queryVals'', PDict query)]))))"
  by (auto simp: makeReq_def Let_def makeReq_query_None makeReq_query_Some)

theorem makeReq_corpusName_witness:
  "map_of [(''lang'', PList [PStr ''eng''])] ''corpusName'' = None \<and>
   makeReq (\<lambda>url body. Inr (PDict [])) [(''lang'', PList [PStr ''eng''])] ''cql'' True =
     ([], Inl (KeyError ''corpusName'')) \<and>
   map_of [(''corpusName'', PStr ''childes'')] ''corpusName'' \<noteq> None \<and>
   (\<exists>query. makeReq_query [(''corpusName'', PStr ''childes'')] = Inr query \<and>
      makeReq (\<lambda>url body. Inr (PDict [])) [(''corpusName'', PStr ''childes'')] ''cql'' True =
        ([(''https://sla2.talkbank.org:1515/cql'', PDict [(''queryVals'', PDict query)])],
         Inr (PDict [])))"
proof -
  have n: "map_of [(''lang'', PList [PStr ''eng''])] ''corpusName'' = None"
    by simp
  have s: "map_of [(''corpusName'', PStr ''childes'')] ''corpusName'' \<noteq> None"
    by simp
  from makeReq_corpusName[of "[(''lang'', PList [PStr ''eng''])]" "\<lambda>url body. Inr (PDict [])"
      "''cql''"] n
  have 1: "makeReq (\<lambda>url body. Inr (PDict [])) [(''lang'', PList [PStr ''eng''])] ''cql'' True =
     ([], Inl (KeyError ''corpusName''))"
    by blast
  from makeReq_corpusName[of "[(''corpusName'', PStr ''childes'')]"
      "\<lambda>url body. Inr (PDict [])" "''cql''"] s
  have 2: "\<exists>query. makeReq_query [(''corpusName'', PStr ''childes'')] = Inr query \<and>
      makeReq (\<lambda>url body. Inr (PDict [])) [(''corpusName'', PStr ''childes'')] ''cql'' True =
        ([(''https://sla2.talkbank.org:1515/cql'', PDict [(''queryVals'', PDict query)])],
         Inr (PDict []))"
    by simp
  from n 1 s 2 show ?thesis by blast
qed

text \<open>
  Claim C5. Building the dictionary is idempotent: when it succeeds on the caller's
  dictionary, building it again from the result succeeds and gives the same dictionary,
  entry for entry.
\<close>

theorem makeReq_query_idempotent:
  assumes "makeReq_query queryParams = Inr query"
  shows "makeReq_query query = Inr query"
proof -
  from assms obtain c where c: "map_of queryParams ''corpusName'' = Some c"
    by (rule makeReq_query_Inr_corpusName)
  have q: "query = [(''corpusName'', c),
              (''corpora'', get_or_empty queryParams ''corpora''),
              (''lang'', get_or_empty queryParams ''lang''),
              (''media'', get_or_empty queryParams ''media''),
              (''age'', get_or_empty queryParams ''age''),
              (''gender'', get_or_empty queryParams ''gender''),
              (''designType'', get_or_empty queryParams ''designType''),
              (''activityType'', get_or_empty queryParams ''activityType''),
              (''groupType'', get_or_empty queryParams ''groupType''),
              (''cqlArr'', get_or_empty queryParams ''cqlArr''),
              (''nGram'', get_or_empty queryParams ''nGram''),
              (''respType'', PStr ''JSON'')] @
           (case map_of queryParams ''nsAuth'' of Some a \<Rightarrow> [(''nsAuth'', a)] | None \<Rightarrow> [])"
    using assms makeReq_query_Some[OF c] by simp
  have c': "map_of query ''corpusName'' = Some c"
    by (simp add: q)
  show ?thesis
    unfolding makeReq_query_Some[OF c']
    by (simp add: q get_or_empty_def split: option.split)
qed

theorem makeReq_query_idempotent_witness:
  "makeReq_query [(''nsAuth'', PList []), (''corpusName'', PStr ''childes''),
                  (''lang'', PList [PStr ''eng''])] =
     Inr [(''corpusName'', PStr ''childes''), (''corpora'', PDict []),
          (''lang'', PList [PStr ''eng'']), (''media'', PDict []), (''age'', PDict []),
          (''gender'', PDict []), (''designType'', PDict []), (''activityType'', PDict []),
          (''groupType'', PDict []), (''cqlArr'', PDict []), (''nGram'', PDict []),
          (''respType'', PStr ''JSON''), (''nsAuth'', PList [])] \<and>
   makeReq_query
     [(''corpusName'', PStr ''childes''), (''corpora'', PDict []),
      (''lang'', PList [PStr ''eng'']), (''media'', PDict []), (''age'', PDict []),
      (''gender'', PDict []), (''designType'', PDict []), (''activityType'', PDict []),
      (''groupType'', PDict []), (''cqlArr'', PDict []), (''nGram'', PDict []),
      (''respType'', PStr ''JSON''), (''nsAuth'', PList [])] =
     Inr [(''corpusName'', PStr ''childes''), (''corpora'', PDict []),
          (''lang'', PList [PStr ''eng'']), (''media'', PDict []), (''age'', PDict []),
          (''gender'', PDict []), (''designType'', PDict []), (''activityType'', PDict []),
          (''groupType'', PDict []), (''cqlArr'', PDict []), (''nGram'', PDict []),
          (''respType'', PStr ''JSON''), (''nsAuth'', PList [])]"
proof -
  have h: "makeReq_query [(''nsAuth'', PList []), (''corpusName'', PStr ''childes''),
                  (''lang'', PList [PStr ''eng''])] =
     Inr [(''corpusName'', PStr ''childes''), (''corpora'', PDict []),
          (''lang'', PList [PStr ''eng'']), (''media'', PDict []), (''age'', PDict []),
          (''gender'', PDict []), (''designType'', PDict []), (''activityType'', PDict []),
          (''groupType'', PDict []), (''cqlArr'', PDict []), (''nGram'', PDict []),
          (''respType'', PStr ''JSON''), (''nsAuth'', PList [])]"
    by (simp add: makeReq_query_def get_or_empty_def)
  from h makeReq_query_idempotent[OF h] show ?thesis by (rule conjI)
qed

text \<open>
  Claim C9. Whenever the dictionary for a data query is built, its keys are the twelve
  keys of the literal, and \<^verbatim>\<open>'nsAuth'\<close> exactly when the caller's dictionary has that
  key; no key occurs twice. That dictionary, under \<^verbatim>\<open>'queryVals'\<close>, is the whole body
  of the one request posted, so no other key of the caller is sent.
\<close>

theorem makeReq_query_keys:
  assumes "makeReq_query queryParams = Inr query"
  shows "set (map fst query) =
           {''corpusName'', ''corpora'', ''lang'', ''media'', ''age'', ''gender'',
            ''designType'', ''activityType'', ''groupType'', ''cqlArr'', ''nGram'',
            ''respType''} \<union>
           (if ''nsAuth'' \<in> set (map fst queryParams) then {''nsAuth''} else {}) \<and>
         distinct (map fst query) \<and>
         fst (makeReq srv queryParams route True) =
           [(''https://sla2.talkbank.org:1515/'' @ route,
             PDict [(''queryVals'', PDict query)])]"
proof -
  from assms obtain c where c: "map_of queryParams ''corpusName'' = Some c"
    by (rule makeReq_query_Inr_corpusName)
  have ns: "''nsAuth'' \<in> set (map fst queryParams) \<longleftrightarrow> map_of queryParams ''nsAuth'' \<noteq> None"
    by (simp add: map_of_eq_None_iff)
  have q: "query = [(''corpusName'', c),
              (''corpora'', get_or_empty queryParams ''corpora''),
              (''lang'', get_or_empty queryParams ''lang''),
              (''media'', get_or_empty queryParams ''media''),
              (''age'', get_or_empty queryParams ''age''),
              (''gender'', get_or_empty queryParams ''gender''),
              (''designType'', get_or_empty queryParams ''designType''),
              (''activityType'', get_or_empty queryParams ''activityType''),
              (''groupType'', get_or_empty queryParams ''groupType''),
              (''cqlArr'', get_or_empty queryParams ''cqlArr''),
              (''nGram'', get_or_empty queryParams ''nGram''),
              (''respType'', PStr ''JSON'')] @
           (case map_of queryParams ''nsAuth'' of Some a \<Rightarrow> [(''nsAuth'', a)] | None \<Rightarrow> [])"
    using assms makeReq_query_Some[OF c] by simp
  have 1: "set (map fst query) =
           {''corpusName'', ''corpora'', ''lang'', ''media'', ''age'', ''gender'',
            ''designType'', ''activityType'', ''groupType'', ''cqlArr'', ''nGram'',
            ''respType''} \<union>
           (if ''nsAuth'' \<in> set (map fst queryParams) then {''nsAuth''} else {})"
  proof (cases "map_of queryParams ''nsAuth''")
    case None
    then show ?thesis unfolding ns by (simp add: q)
  next
    case (Some a)
    then show ?thesis unfolding ns by (auto simp: q)
  qed
  have 2: "distinct (map fst query)"
    by (simp add: q split: option.split)
  have 3: "fst (makeReq srv queryParams route True) =
           [(''https://sla2.talkbank.org:1515/'' @ route,
             PDict [(''queryVals'', PDict query)])]"
    by (simp add: makeReq_def Let_def assms)
  from 1 2 3 show ?thesis by blast
qed

theorem makeReq_query_keys_witness:
  "makeReq_query [(''corpusName'', PStr ''childes''), (''secret'', PInt 1),
                  (''nsAuth'', PList [])] =
     Inr [(''corpusName'', PStr ''childes''), (''corpora'', PDict []), (''lang'', PDict []),
          (''media'', PDict []), (''age'', PDict []), (''gender'', PDict []),
          (''designType'', PDict []), (''activityType'', PDict []), (''groupType'', PDict []),
          (''cqlArr'', PDict []), (''nGram'', PDict []), (''respType'', PStr ''JSON''),
          (''nsAuth'', PList [])] \<and>
   ''secret'' \<notin> set (map fst
       [(''corpusName'', PStr ''childes''), (''corpora'', PDict []), (''lang'', PDict []),
        (''media'', PDict []), (''age'', PDict []), (''gender'', PDict []),
        (''designType'', PDict []), (''activityType'', PDict []), (''groupType'', PDict []),
        (''cqlArr'', PDict []), (''nGram'', PDict []), (''respType'', PStr ''JSON''),
        (''nsAuth'', PList [])]) \<and>
   ''nsAuth'' \<in> set (map fst
       [(''corpusName'', PStr ''childes''), (''corpora'', PDict []), (''lang'', PDict []),
        (''media'', PDict []), (''age'', PDict []), (''gender'', PDict []),
        (''designType'', PDict []), (''activityType'', PDict []), (''groupType'', PDict []),
        (''cqlArr'', PDict []), (''nGram'', PDict []), (''respType'', PStr ''JSON''),
        (''nsAuth'', PList [])])"
proof -
  have h: "makeReq_query [(''corpusName'', PStr ''childes''), (''secret'', PInt 1),
                  (''nsAuth'', PList [])] =
     Inr [(''corpusName'', PStr ''childes''), (''corpora'', PDict []), (''lang'', PDict []),
          (''media'', PDict []), (''age'', PDict []), (''gender'', PDict []),
          (''designType'', PDict []), (''activityType'', PDict []), (''groupType'', PDict []),
          (''cqlArr'', PDict []), (''nGram'', PDict []), (''respType'', PStr ''JSON''),
          (''nsAuth'', PList [])]"
    by (simp add: makeReq_query_def get_or_empty_def)
  from makeReq_query_keys[OF h] h show ?thesis by simp
qed

section \<open>Properties of the credential collector\<close>

lemma lower_y: "lower ''y'' = ''y''"
  by (simp add: lower_def lower_char_def)

lemma lower_n: "lower ''n'' \<noteq> ''y''"
  by (simp add: lower_def lower_char_def)

lemma lower_yes: "lower ''yes'' \<noteq> ''y''"
  by (simp add: lower_def lower_char_def)

lemma lower_Y: "lower ''Y'' = ''y''"
  by code_simp

text \<open>
  Claim C6, as the code has it. The answers \<^verbatim>\<open>'y'\<close>, \<^verbatim>\<open>'y'\<close>, \<^verbatim>\<open>'n'\<close> follow three
  entries, since the question comes after each entry: the collector returns three
  records, in the order of input, and has read every line.
\<close>

theorem authenticate_y_y_n:
  "authenticate [p1, u1, w1, ''y'', p2, u2, w2, ''y'', p3, u3, w3, ''n''] =
     ([], Inr (PList
        [PDict [(''path'', PStr p1), (''userID'', PStr u1), (''pswd'', PStr w1)],
         PDict [(''path'', PStr p2), (''userID'', PStr u2), (''pswd'', PStr w2)],
         PDict [(''path'', PStr p3), (''userID'', PStr u3), (''pswd'', PStr w3)]]))"
  by (simp add: authenticate_def lower_y lower_n)

text \<open>
  Claim C6 as stated fails. With the answers \<^verbatim>\<open>'y'\<close>, \<^verbatim>\<open>'y'\<close>, \<^verbatim>\<open>'n'\<close> the result
  has three records, not the first two; with the literal answers \<^verbatim>\<open>'yes'\<close>,
  \<^verbatim>\<open>'yes'\<close>, \<^verbatim>\<open>'no'\<close> the first answer already ends the loop and the result has one
  record, the other lines being left unread.
\<close>

theorem authenticate_two_records_counterexample:
  "snd (authenticate [''p1'', ''u1'', ''w1'', ''y'', ''p2'', ''u2'', ''w2'', ''y'',
                      ''p3'', ''u3'', ''w3'', ''n'']) =
     Inr (PList
       [PDict [(''path'', PStr ''p1''), (''userID'', PStr ''u1''), (''pswd'', PStr ''w1'')],
        PDict [(''path'', PStr ''p2''), (''userID'', PStr ''u2''), (''pswd'', PStr ''w2'')],
        PDict [(''path'', PStr ''p3''), (''userID'', PStr ''u3''), (''pswd'', PStr ''w3'')]]) \<and>
   snd (authenticate [''p1'', ''u1'', ''w1'', ''y'', ''p2'', ''u2'', ''w2'', ''y'',
                      ''p3'', ''u3'', ''w3'', ''n'']) \<noteq>
     Inr (PList
       [PDict [(''path'', PStr ''p1''), (''userID'', PStr ''u1''), (''pswd'', PStr ''w1'')],
        PDict [(''path'', PStr ''p2''), (''userID'', PStr ''u2''), (''pswd'', PStr ''w2'')]]) \<and>
   authenticate [''p1'', ''u1'', ''w1'', ''yes'', ''p2'', ''u2'', ''w2'', ''yes'',
                 ''p3'', ''u3'', ''w3'', ''no''] =
     ([''p2'', ''u2'', ''w2'', ''yes'', ''p3'', ''u3'', ''w3'', ''no''],
      Inr (PList
        [PDict [(''path'', PStr ''p1''), (''userID'', PStr ''u1''),
                (''pswd'', PStr ''w1'')]]))"
  by (simp add: authenticate_def lower_y lower_n lower_yes)

text \<open>
  Claim C7, evaluated at the answer \<^verbatim>\<open>'Y'\<close>. The return inside the loop is skipped,
  because \<^verbatim>\<open>'Y'.lower()\<close> is \<^verbatim>\<open>'y'\<close>, and the loop head then fails, because
  \<^verbatim>\<open>'Y' == 'y'\<close> does not hold: the collector stops after one entry, leaves the
  following lines unread and returns \<^verbatim>\<open>None\<close>.
\<close>

theorem authenticate_upper_Y:
  "authenticate [''p1'', ''u1'', ''w1'', ''Y'', ''p2'', ''u2'', ''w2'', ''n''] =
     ([''p2'', ''u2'', ''w2'', ''n''], Inr PNone)"
  by (simp add: authenticate_def lower_Y)

lemma authenticate_loop_records:
  assumes "authenticate_loop authReqs another inputs = (rest, Inr (PList rs))"
    and "\<forall>r \<in> set authReqs. \<exists>pre path user_id password answer post.
           inputs0 = pre @ path # user_id # password # answer # post \<and>
           r = PDict [(''path'', PStr path), (''userID'', PStr user_id),
                      (''pswd'', PStr password)]"
    and "\<exists>pre. inputs0 = pre @ inputs"
  shows "\<forall>r \<in> set rs. \<exists>pre path user_id password answer post.
           inputs0 = pre @ path # user_id # password # answer # post \<and>
           r = PDict [(''path'', PStr path), (''userID'', PStr user_id),
                      (''pswd'', PStr password)]"
  using assms
proof (induction authReqs another inputs rule: authenticate_loop.induct)
  case (1 authReqs another inputs)
  show ?case
  proof (cases "another = ''y''")
    case False
    with "1.prems"(1) show ?thesis by simp
  next
    case True
    then obtain path user_id password answer rest' where
      inp: "inputs = path # user_id # password # answer # rest'"
      using "1.prems"(1) by (auto split: list.splits)
    from "1.prems"(3) obtain pre where pre: "inputs0 = pre @ inputs" by blast
    let ?acc = "authReqs @
      [PDict [(''path'', PStr path), (''userID'', PStr user_id), (''pswd'', PStr password)]]"
    have acc: "\<forall>r \<in> set ?acc. \<exists>pre path user_id password answer post.
           inputs0 = pre @ path # user_id # password # answer # post \<and>
           r = PDict [(''path'', PStr path), (''userID'', PStr user_id),
                      (''pswd'', PStr password)]"
    proof
      fix r assume "r \<in> set ?acc"
      then consider "r \<in> set authReqs"
        | "r = PDict [(''path'', PStr path), (''userID'', PStr user_id),
                      (''pswd'', PStr password)]"
        by auto
      then show "\<exists>pre path user_id password answer post.
           inputs0 = pre @ path # user_id # password # answer # post \<and>
           r = PDict [(''path'', PStr path), (''userID'', PStr user_id),
                      (''pswd'', PStr password)]"
      proof cases
        case 1
        with "1.prems"(2) show ?thesis by blast
      next
        case 2
        with pre inp show ?thesis by blast
      qed
    qed
    have pre': "\<exists>pre. inputs0 = pre @ rest'"
      using pre inp by (intro exI[of _ "pre @ [path, user_id, password, answer]"]) simp
    show ?thesis
    proof (cases "lower answer \<noteq> ''y''")
      case True
      with \<open>another = ''y''\<close> inp "1.prems"(1) have "rs = ?acc"
        by simp
      with acc show ?thesis by simp
    next
      case False
      with \<open>another = ''y''\<close> inp "1.prems"(1)
      have "authenticate_loop ?acc answer rest' = (rest, Inr (PList rs))"
        by simp
      from "1.IH"[OF \<open>another = ''y''\<close> inp refl refl refl False this acc pre']
      show ?thesis .
    qed
  qed
qed

text \<open>
  Claim C8, as the code has it. Every record of a list that the collector returns is a
  dictionary with exactly the keys \<^verbatim>\<open>'path'\<close>, \<^verbatim>\<open>'userID'\<close> and \<^verbatim>\<open>'pswd'\<close>, in this
  order, holding a path, a user identifier and a password that were read one after the
  other from the terminal, followed there by the answer to the question.
\<close>

theorem authenticate_record_keys:
  assumes "authenticate inputs = (rest, Inr (PList rs))" and "r \<in> set rs"
  shows "\<exists>pre path user_id password answer post.
           inputs = pre @ path # user_id # password # answer # post \<and>
           r = PDict [(''path'', PStr path), (''userID'', PStr user_id),
                      (''pswd'', PStr password)]"
  using authenticate_loop_records[of "[]" "''y''" inputs rest rs inputs] assms
  by (simp add: authenticate_def)

theorem authenticate_record_keys_witness:
  "authenticate [''p'', ''u'', ''w'', ''n''] =
     ([], Inr (PList
        [PDict [(''path'', PStr ''p''), (''userID'', PStr ''u''), (''pswd'', PStr ''w'')]])) \<and>
   (\<exists>pre path user_id password answer post.
      [''p'', ''u'', ''w'', ''n''] = pre @ path # user_id # password # answer # post \<and>
      PDict [(''path'', PStr ''p''), (''userID'', PStr ''u''), (''pswd'', PStr ''w'')] =
        PDict [(''path'', PStr path), (''userID'', PStr user_id), (''pswd'', PStr password)])"
proof -
  have a: "authenticate [''p'', ''u'', ''w'', ''n''] =
     ([], Inr (PList
        [PDict [(''path'', PStr ''p''), (''userID'', PStr ''u''), (''pswd'', PStr ''w'')]]))"
    by (simp add: authenticate_def lower_n)
  have m: "PDict [(''path'', PStr ''p''), (''userID'', PStr ''u''), (''pswd'', PStr ''w'')]
      \<in> set [PDict [(''path'', PStr ''p''), (''userID'', PStr ''u''),
                       (''pswd'', PStr ''w'')]]"
    by simp
  from a authenticate_record_keys[OF a m] show ?thesis by (rule conjI)
qed

text \<open>
  Claim C8 as stated fails: the record of a run has the key \<^verbatim>\<open>'pswd'\<close> and no key
  \<^verbatim>\<open>'password'\<close>.
\<close>

theorem authenticate_password_key_counterexample:
  "snd (authenticate [''p'', ''u'', ''w'', ''n'']) =
     Inr (PList
       [PDict [(''path'', PStr ''p''), (''userID'', PStr ''u''), (''pswd'', PStr ''w'')]]) \<and>
   map_of [(''path'', PStr ''p''), (''userID'', PStr ''u''), (''pswd'', PStr ''w'')]
     ''password'' = None \<and>
   map fst [(''path'', PStr ''p''), (''userID'', PStr ''u''), (''pswd'', PStr ''w'')] =
     [''path'', ''userID'', ''pswd'']"
  by (simp add: authenticate_def lower_n)

section \<open>Properties of the public query functions\<close>

lemmas public_defs =
  getTranscripts_def getParticipants_def getUtterances_def getTokens_def getTokenTypes_def
  getCQL_def getNgrams_def

text \<open>
  Claim C10. For each of the seven public functions: when the flag \<^verbatim>\<open>auth\<close> is set
  and the collector returns a value, the caller's dictionary after the call is the
  dictionary before it with that value stored under \<^verbatim>\<open>'nsAuth'\<close> (every other key is
  as it was), whatever the request then does; without the flag the caller's dictionary
  after the call is the dictionary before it.
\<close>

theorem auth_stores_nsAuth:
  "\<forall>f \<in> set public_query_functions.
     (\<forall>inputs' nsAuth. authenticate inputs = (inputs', Inr nsAuth) \<longrightarrow>
        params_after (f srv inputs queryParams True) =
          AList.update ''nsAuth'' nsAuth queryParams \<and>
        map_of (params_after (f srv inputs queryParams True)) =
          (map_of queryParams)(''nsAuth'' \<mapsto> nsAuth)) \<and>
     params_after (f srv inputs queryParams False) = queryParams"
  by (simp add: public_query_functions_def public_defs update_conv' split: prod.split)

theorem auth_stores_nsAuth_witness:
  "authenticate [''p'', ''u'', ''w'', ''n''] =
     ([], Inr (PList
        [PDict [(''path'', PStr ''p''), (''userID'', PStr ''u''), (''pswd'', PStr ''w'')]])) \<and>
   getCQL \<in> set public_query_functions \<and>
   params_after (getCQL (\<lambda>url body. Inl TransportFailure) [''p'', ''u'', ''w'', ''n'']
       [(''corpusName'', PStr ''childes'')] True) =
     [(''corpusName'', PStr ''childes''),
      (''nsAuth'', PList
         [PDict [(''path'', PStr ''p''), (''userID'', PStr ''u''),
                 (''pswd'', PStr ''w'')]])] \<and>
   params_after (getCQL (\<lambda>url body. Inl TransportFailure) [''p'', ''u'', ''w'', ''n'']
       [(''corpusName'', PStr ''childes'')] False) =
     [(''corpusName'', PStr ''childes'')]"
proof -
  have a: "authenticate [''p'', ''u'', ''w'', ''n''] =
     ([], Inr (PList
        [PDict [(''path'', PStr ''p''), (''userID'', PStr ''u''), (''pswd'', PStr ''w'')]]))"
    by (simp add: authenticate_def lower_n)
  have m: "getCQL \<in> set public_query_functions"
    by (simp add: public_query_functions_def)
  from auth_stores_nsAuth[of "[''p'', ''u'', ''w'', ''n'']"
      "\<lambda>url body. Inl TransportFailure" "[(''corpusName'', PStr ''childes'')]"] a m
  show ?thesis by simp
qed

section \<open>Properties of the path validator\<close>

lemma py_in_dict: "py_in seg (PDict kvs) = Inr (map_of kvs seg \<noteq> None)"
  by (simp add: map_of_eq_None_iff)

lemma checkPath_never_bool:
  assumes "py_in seg pathTree = Inr True"
  shows "snd (checkPath (seg # rest) pathTree) \<noteq> Inr (PBool b)"
  using assms by (simp split: sum.split prod.split)

lemma checkPath_discards:
  assumes "py_in seg pathTree = Inr True" and "py_getitem pathTree seg = Inr sub"
    and "checkPath rest sub = (out, Inr v)"
  shows "checkPath (seg # rest) pathTree = (out, Inr PNone)"
  using assms by simp

lemma checkPath_returns:
  "dicts_along targetPath pathTree \<Longrightarrow>
   \<exists>out v. checkPath targetPath pathTree = (out, Inr v)"
proof (induction targetPath arbitrary: pathTree)
  case Nil
  show ?case by simp
next
  case (Cons seg rest)
  then obtain kvs where t: "pathTree = PDict kvs"
    by (cases pathTree) simp_all
  show ?case
  proof (cases "map_of kvs seg")
    case None
    then show ?thesis by (simp add: t py_in_dict del: py_in.simps)
  next
    case (Some sub)
    with Cons.prems t have "dicts_along rest sub" by simp
    from Cons.IH[OF this] obtain out v where "checkPath rest sub = (out, Inr v)" by blast
    with Some show ?thesis by (simp add: t py_in_dict del: py_in.simps)
  qed
qed

text \<open>
  Claim C2, as the code has it. When the first segment of a non-empty path is in the
  tree, \<^verbatim>\<open>checkPath\<close> never returns a boolean. Whenever the recursive call returns a
  value, that value is dropped and the call returns \<^verbatim>\<open>None\<close>, with the lines the
  recursive call printed. When every value visited on the descent is a dictionary the
  recursive call does return, so the call returns \<^verbatim>\<open>None\<close>.
\<close>

theorem checkPath_present_segment:
  assumes "py_in seg pathTree = Inr True"
  shows "(\<forall>b. snd (checkPath (seg # rest) pathTree) \<noteq> Inr (PBool b)) \<and>
         (\<forall>sub out v. py_getitem pathTree seg = Inr sub \<and> checkPath rest sub = (out, Inr v)
            \<longrightarrow> checkPath (seg # rest) pathTree = (out, Inr PNone)) \<and>
         (dicts_along (seg # rest) pathTree
            \<longrightarrow> snd (checkPath (seg # rest) pathTree) = Inr PNone)"
proof (intro conjI allI impI)
  fix b show "snd (checkPath (seg # rest) pathTree) \<noteq> Inr (PBool b)"
    by (rule checkPath_never_bool[OF assms])
next
  fix sub out v
  assume "py_getitem pathTree seg = Inr sub \<and> checkPath rest sub = (out, Inr v)"
  then show "checkPath (seg # rest) pathTree = (out, Inr PNone)"
    using checkPath_discards[OF assms] by blast
next
  assume d: "dicts_along (seg # rest) pathTree"
  from checkPath_returns[OF d] obtain out v where
    r: "checkPath (seg # rest) pathTree = (out, Inr v)" by blast
  have "v = PNone"
    using r assms by (simp split: sum.splits prod.splits)
  with r show "snd (checkPath (seg # rest) pathTree) = Inr PNone" by simp
qed

theorem checkPath_present_segment_witness:
  "py_in ''childes'' (PDict [(''childes'', PDict [(''Clinical'', PDict [])])]) = Inr True \<and>
   dicts_along [''childes'', ''Clinical'']
     (PDict [(''childes'', PDict [(''Clinical'', PDict [])])]) \<and>
   py_getitem (PDict [(''childes'', PDict [(''Clinical'', PDict [])])]) ''childes'' =
     Inr (PDict [(''Clinical'', PDict [])]) \<and>
   checkPath [''Clinical''] (PDict [(''Clinical'', PDict [])]) = ([], Inr PNone) \<and>
   checkPath [''childes'', ''Clinical'']
     (PDict [(''childes'', PDict [(''Clinical'', PDict [])])]) = ([], Inr PNone)"
proof -
  have h: "py_in ''childes'' (PDict [(''childes'', PDict [(''Clinical'', PDict [])])]) =
      Inr True"
    by simp
  have d: "dicts_along [''childes'', ''Clinical'']
      (PDict [(''childes'', PDict [(''Clinical'', PDict [])])])"
    by simp
  have g: "py_getitem (PDict [(''childes'', PDict [(''Clinical'', PDict [])])]) ''childes'' =
      Inr (PDict [(''Clinical'', PDict [])])"
    by simp
  have c: "checkPath [''Clinical''] (PDict [(''Clinical'', PDict [])]) = ([], Inr PNone)"
    by simp
  from checkPath_present_segment[OF h, of "[''Clinical'']"] g c
  have "checkPath [''childes'', ''Clinical'']
      (PDict [(''childes'', PDict [(''Clinical'', PDict [])])]) = ([], Inr PNone)"
    by blast
  with h d g c show ?thesis by blast
qed

text \<open>
  Claim C2 as stated fails. The first segment \<^verbatim>\<open>'a'\<close> is in the tree \<^verbatim>\<open>{'a': 5}\<close>,
  and on the path \<^verbatim>\<open>['a', 'b']\<close> the recursive call tests \<^verbatim>\<open>'b' in 5\<close>, which raises
  \<^verbatim>\<open>TypeError\<close>: the call raises and does not return \<^verbatim>\<open>None\<close>.
\<close>

theorem checkPath_returns_None_counterexample:
  "py_in ''a'' (PDict [(''a'', PInt 5)]) = Inr True \<and>
   checkPath [''a'', ''b''] (PDict [(''a'', PInt 5)]) = ([], Inl TypeError) \<and>
   snd (checkPath [''a'', ''b''] (PDict [(''a'', PInt 5)])) \<noteq> Inr PNone"
  by simp

text \<open>
  Claim C1, evaluated on a response that holds the chain \<^verbatim>\<open>childes\<close>, \<^verbatim>\<open>childes\<close>,
  \<^verbatim>\<open>Clinical\<close> under \<^verbatim>\<open>respMsg\<close>. On the path of the docstring's valid example
  \<^verbatim>\<open>validPath\<close> returns \<^verbatim>\<open>None\<close>, not \<^verbatim>\<open>True\<close>; on the path of its invalid example
  it prints the missing segment and returns \<^verbatim>\<open>None\<close>, not \<^verbatim>\<open>False\<close>. Both calls post
  two requests for the path tree.
\<close>

theorem validPath_returns_None:
  "validPath (\<lambda>url body. Inr example_tree) [''childes'', ''childes'', ''Clinical''] =
     ([(''https://sla2.talkbank.org:1515/getPathTrees'', PDict []),
       (''https://sla2.talkbank.org:1515/getPathTrees'', PDict [])],
      [], Inr PNone) \<and>
   validPath (\<lambda>url body. Inr example_tree) [''childes'', ''childes'', ''doesNotExist''] =
     ([(''https://sla2.talkbank.org:1515/getPathTrees'', PDict []),
       (''https://sla2.talkbank.org:1515/getPathTrees'', PDict [])],
      [''Invalid path at: doesNotExist''], Inr PNone)"
  by (simp add: validPath_def getPathTrees_def makeReq_def example_tree_def)

end
